theory Spec2Isabelle
  imports Main "HOL-Library.Sublist"
begin

section \<open>The jukebox API of \<^verbatim>\<open>api.py\<close>\<close>

text \<open>
  \<^verbatim>\<open>api.py\<close> is a falcon application with three GET handlers. Two of them talk to
  \<^verbatim>\<open>youtube_dl\<close>: \<^verbatim>\<open>V1Lookup.on_get\<close> resolves a search term, \<^verbatim>\<open>V1Enqueue.on_get\<close>
  resolves a video id, looks for its audio file under \<^verbatim>\<open>./cache/audio\<close> and downloads it
  when it is missing. Both apply the duration policy of \<^verbatim>\<open>response_for_duration\<close>.

  The embedding keeps the source's names. What is left out: the \<^verbatim>\<open>log.info\<close> lines, the
  unused \<^verbatim>\<open>req\<close> argument, the start-up check \<^verbatim>\<open>check_ffmpeg_libav\<close> and the routing of
  \<^verbatim>\<open>create_app\<close>.
\<close>

subsection \<open>Python values and exceptions\<close>

text \<open>
  The values the handlers read out of an info dict of \<^verbatim>\<open>youtube_dl\<close>: \<^verbatim>\<open>None\<close>, an
  \<^verbatim>\<open>int\<close> or a \<^verbatim>\<open>str\<close>. Floating-point values are not modelled.
\<close>

datatype pyval = PyNone | PyInt int | PyStr string

text \<open>
  The exceptions that can leave a handler. \<^verbatim>\<open>DownloadError\<close> is what the two
  \<^verbatim>\<open>youtube_dl\<close> calls raise when they fail.
\<close>

datatype py_error = KeyError | IndexError | TypeError | DownloadError

type_synonym pydict = "string \<rightharpoonup> pyval"

text \<open>\<^verbatim>\<open>d[k]\<close> raises \<^verbatim>\<open>KeyError\<close> on a missing key; \<^verbatim>\<open>d.get(k)\<close> gives \<^verbatim>\<open>None\<close>.\<close>

definition getitem :: "pydict \<Rightarrow> string \<Rightarrow> py_error + pyval" where
  "getitem d k = (case d k of None \<Rightarrow> Inl KeyError | Some v \<Rightarrow> Inr v)"

definition dict_get :: "pydict \<Rightarrow> string \<Rightarrow> pyval" where
  "dict_get d k = (case d k of None \<Rightarrow> PyNone | Some v \<Rightarrow> v)"

subsection \<open>Rendering integers\<close>

definition digit :: "nat \<Rightarrow> char" where
  "digit n = ''0123456789'' ! n"

fun str_nat :: "nat \<Rightarrow> string" where
  "str_nat n = (if n < 10 then [digit n] else str_nat (n div 10) @ [digit (n mod 10)])"

declare str_nat.simps [simp del]

text \<open>\<^verbatim>\<open>f"{i}"\<close> for an \<^verbatim>\<open>int\<close>: the decimal digits, after a minus sign when negative.\<close>

definition str_int :: "int \<Rightarrow> string" where
  "str_int i = (if i < 0 then CHR ''-'' # str_nat (nat (- i)) else str_nat (nat i))"

text \<open>
  \<^verbatim>\<open>f"{x:02}"\<close> for an \<^verbatim>\<open>int\<close>: sign-aware zero padding to a minimum width of two
  characters, the sign counted in the width.
\<close>

definition format_02 :: "int \<Rightarrow> string" where
  "format_02 x =
     (let ds = str_nat (nat \<bar>x\<bar>);
          sgn = (if x < 0 then ''-'' else '''')
      in sgn @ replicate (2 - length sgn - length ds) CHR ''0'' @ ds)"

text \<open>\<^verbatim>\<open>f"{v}"\<close> for a value of an info dict.\<close>

fun py_format :: "pyval \<Rightarrow> string" where
  "py_format PyNone = ''None''"
| "py_format (PyInt i) = str_int i"
| "py_format (PyStr s) = s"

subsection \<open>The duration policy\<close>

definition MAX_VIDEO_DURATION :: int where
  "MAX_VIDEO_DURATION = 12 * 60"

text \<open>Python's \<^verbatim>\<open>//\<close> on integers is floor division, as \<open>div\<close> on \<open>int\<close> is.\<close>

definition s2m :: "int \<Rightarrow> string" where
  "s2m seconds =
     (let minutes = seconds div 60
      in str_int minutes @ '':'' @ format_02 (seconds - minutes * 60))"

text \<open>
  A response body. The handlers build it with \<^verbatim>\<open>dict(ok=..., reason=..., token=...,
  video_info=...)\<close>; a key that is not in the dict is \<open>None\<close> here.
\<close>

record media =
  ok :: bool
  reason :: "string option"
  token :: "pyval option"
  video_info :: "(string \<times> pyval) list option"

definition dict_ok :: "bool \<Rightarrow> media" where
  "dict_ok b = \<lparr>ok = b, reason = None, token = None, video_info = None\<rparr>"

text \<open>
  \<^verbatim>\<open>duration > MAX_VIDEO_DURATION\<close> raises \<^verbatim>\<open>TypeError\<close> when \<^verbatim>\<open>duration\<close> is \<^verbatim>\<open>None\<close>
  or a \<^verbatim>\<open>str\<close>.
\<close>

fun response_for_duration :: "pyval \<Rightarrow> py_error + media" where
  "response_for_duration (PyInt duration) =
     Inr (if duration > MAX_VIDEO_DURATION
          then (dict_ok False)\<lparr>reason := Some
                 (''Video is too long at '' @ str_int duration @ ''s ('' @ s2m duration @ ''). ''
                  @ ''Maximum duration is '' @ str_int MAX_VIDEO_DURATION @ ''s (''
                  @ s2m MAX_VIDEO_DURATION @ '').'')\<rparr>
          else dict_ok True)"
| "response_for_duration PyNone = Inl TypeError"
| "response_for_duration (PyStr s) = Inl TypeError"

text \<open>
  The spec's rendering of a nonnegative number of seconds: the minutes, a colon, and the
  remaining seconds as exactly two decimal digits.
\<close>

definition minutes_colon_seconds :: "nat \<Rightarrow> string" where
  "minutes_colon_seconds s =
     str_nat (s div 60) @ '':'' @ [digit ((s mod 60) div 10), digit ((s mod 60) mod 10)]"

subsection \<open>The collaborators and the world\<close>

text \<open>
  What \<^verbatim>\<open>extract_info\<close> returns: a dict. \<open>entries\<close> is its \<^verbatim>\<open>"entries"\<close> key (a list of
  info dicts) when the key is there; \<open>scalars\<close> holds its other keys.
\<close>

record ie_result =
  scalars :: pydict
  entries :: "pydict list option"

text \<open>
  The \<^verbatim>\<open>YoutubeDL(YTDL_OPTS)\<close> object, as the two methods the handlers call.
  \<open>download\<close> takes the urls and the audio files present, and returns the files present
  afterwards.
\<close>

record ytdl =
  extract_info :: "string \<Rightarrow> py_error + ie_result"
  download :: "string list \<Rightarrow> string set \<Rightarrow> py_error + string set"

datatype call = ExtractInfo string | Download "string list"

text \<open>
  \<open>cache\<close> is the set of file names \<open>n\<close> for which \<^verbatim>\<open>(Path("./cache/audio") / n).exists()\<close>;
  \<open>calls\<close> is the log of the calls made to \<^verbatim>\<open>youtube_dl\<close>, oldest first.
\<close>

record world =
  cache :: "string set"
  calls :: "call list"

record response =
  status :: string
  media :: "media option"

definition HTTP_200 :: string where
  "HTTP_200 = ''200 OK''"

definition HTTP_400 :: string where
  "HTTP_400 = ''400 Bad Request''"

text \<open>The response falcon hands to a handler: status 200, no body yet.\<close>

definition falcon_Response :: response where
  "falcon_Response = \<lparr>status = HTTP_200, media = None\<rparr>"

subsection \<open>The handlers\<close>

definition VIDEO_INFO_KEYS :: "string list" where
  "VIDEO_INFO_KEYS =
     [''alt_title'', ''artist'', ''creator'', ''description'', ''title'', ''track'',
      ''uploader'', ''webpage_url'', ''viewcount'', ''duration'']"

text \<open>
  \<^verbatim>\<open>V1Lookup.on_get\<close>. \<^verbatim>\<open>info["entries"][0]\<close> raises \<^verbatim>\<open>KeyError\<close> when the key is
  missing, which the \<^verbatim>\<open>except KeyError\<close> turns into the 400 response, and \<^verbatim>\<open>IndexError\<close>
  when the list is empty, which nothing catches. The keyword arguments of the final
  \<^verbatim>\<open>dict(...)\<close> are evaluated from left to right.
\<close>

definition V1Lookup_on_get ::
  "ytdl \<Rightarrow> world \<Rightarrow> response \<Rightarrow> string \<Rightarrow> world \<times> (py_error + response)" where
  "V1Lookup_on_get y w res search_term =
     (let w1 = w\<lparr>calls := calls w @ [ExtractInfo search_term]\<rparr> in
      case extract_info y search_term of
        Inl e \<Rightarrow> (w1, Inl e)
      | Inr info \<Rightarrow>
          (case entries info of
             None \<Rightarrow>
               (w1, Inr (res\<lparr>media := Some ((dict_ok False)\<lparr>reason :=
                             Some (''Nothing found for search term '' @ [CHR 0x27] @ search_term)\<rparr>),
                           status := HTTP_400\<rparr>))
           | Some [] \<Rightarrow> (w1, Inl IndexError)
           | Some (choice # _) \<Rightarrow>
               (case getitem choice ''duration'' of
                  Inl e \<Rightarrow> (w1, Inl e)
                | Inr d \<Rightarrow>
                    (case response_for_duration d of
                       Inl e \<Rightarrow> (w1, Inl e)
                     | Inr r \<Rightarrow>
                         (case getitem choice ''id'' of
                            Inl e \<Rightarrow> (w1, Inl e)
                          | Inr i \<Rightarrow>
                              (w1, Inr (res\<lparr>media := Some (r\<lparr>token := Some i,
                                 video_info := Some (map (\<lambda>k. (k, dict_get choice k))
                                                      VIDEO_INFO_KEYS)\<rparr>)\<rparr>)))))))"

text \<open>
  \<^verbatim>\<open>V1Enqueue.on_get\<close>. The metadata is extracted first; the cache is looked up under the
  extracted id; the duration policy is applied only when the file is missing; the download
  comes last.
\<close>

definition V1Enqueue_on_get ::
  "ytdl \<Rightarrow> world \<Rightarrow> response \<Rightarrow> string \<Rightarrow> world \<times> (py_error + response)" where
  "V1Enqueue_on_get y w res video_id =
     (let url = ''https://youtu.be/'' @ video_id;
          w1 = w\<lparr>calls := calls w @ [ExtractInfo url]\<rparr> in
      case extract_info y url of
        Inl e \<Rightarrow> (w1, Inl e)
      | Inr info \<Rightarrow>
          (case getitem (scalars info) ''id'' of
             Inl e \<Rightarrow> (w1, Inl e)
           | Inr i \<Rightarrow>
               (let audio_file = py_format i @ ''.opus'' in
                if audio_file \<in> cache w1
                then (w1, Inr (res\<lparr>media := Some (dict_ok True)\<rparr>))
                else
                  (case getitem (scalars info) ''duration'' of
                     Inl e \<Rightarrow> (w1, Inl e)
                   | Inr d \<Rightarrow>
                       (case response_for_duration d of
                          Inl e \<Rightarrow> (w1, Inl e)
                        | Inr duration_response \<Rightarrow>
                            if \<not> ok duration_response
                            then (w1, Inr (res\<lparr>media := Some duration_response,
                                               status := HTTP_400\<rparr>))
                            else
                              (let url2 = ''https://youtu.be/'' @ py_format i;
                                   w2 = w1\<lparr>calls := calls w1 @ [Download [url2]]\<rparr> in
                               case download y [url2] (cache w1) of
                                 Inl e \<Rightarrow> (w2, Inl e)
                               | Inr files \<Rightarrow>
                                   (w2\<lparr>cache := files\<rparr>,
                                    Inr (res\<lparr>media := Some (dict_ok True)\<rparr>))))))))"

subsection \<open>A fake \<^verbatim>\<open>youtube_dl\<close> for concrete runs\<close>

text \<open>
  One video of 1200 seconds, found by its url and by the search term \<^verbatim>\<open>a long video\<close>;
  a search term that gives an empty list of entries; every other extraction fails. The
  download writes \<^verbatim>\<open><id>.opus\<close> for each url.
\<close>

definition long_video :: pydict where
  "long_video =
     [''id'' \<mapsto> PyStr ''LONGVIDEO01'', ''title'' \<mapsto> PyStr ''A long video'',
      ''duration'' \<mapsto> PyInt 1200]"

definition fake_extract_info :: "string \<Rightarrow> py_error + ie_result" where
  "fake_extract_info url =
     (if url = ''https://youtu.be/LONGVIDEO01''
      then Inr \<lparr>scalars = long_video, entries = None\<rparr>
      else if url = ''a long video''
      then Inr \<lparr>scalars = Map.empty, entries = Some [long_video]\<rparr>
      else if url = ''asdkfjhaskldfjhaslkdfjh''
      then Inr \<lparr>scalars = Map.empty, entries = Some []\<rparr>
      else Inl DownloadError)"

definition fake_download :: "string list \<Rightarrow> string set \<Rightarrow> py_error + string set" where
  "fake_download urls files = Inr (files \<union> set (map (\<lambda>u. drop 17 u @ ''.opus'') urls))"

definition fake_ytdl :: ytdl where
  "fake_ytdl = \<lparr>extract_info = fake_extract_info, download = fake_download\<rparr>"

definition empty_world :: world where
  "empty_world = \<lparr>cache = {}, calls = []\<rparr>"

definition cached_world :: world where
  "cached_world = \<lparr>cache = {''LONGVIDEO01.opus''}, calls = []\<rparr>"

section \<open>Properties\<close>

subsection \<open>Rendering\<close>

lemma str_nat_one_digit: "n < 10 \<Longrightarrow> str_nat n = [digit n]"
  by (simp add: str_nat.simps)

lemma str_nat_two_digits:
  assumes "10 \<le> n" and "n < 100"
  shows "str_nat n = [digit (n div 10), digit (n mod 10)]"
proof -
  from assms have "n div 10 < 10" by simp
  then have "str_nat (n div 10) = [digit (n div 10)]" by (rule str_nat_one_digit)
  with assms show ?thesis by (subst str_nat.simps) simp
qed

lemma format_02_nat:
  assumes "k < 100"
  shows "format_02 (int k) = [digit (k div 10), digit (k mod 10)]"
proof (cases "k < 10")
  case True
  then have "str_nat k = [digit k]" by (rule str_nat_one_digit)
  moreover have "digit 0 = CHR ''0''" by (simp add: digit_def)
  ultimately show ?thesis using True
    by (simp add: format_02_def)
next
  case False
  with assms have "str_nat k = [digit (k div 10), digit (k mod 10)]"
    by (intro str_nat_two_digits) simp_all
  then show ?thesis
    by (simp add: format_02_def)
qed

lemma s2m_minutes_colon_seconds:
  assumes "0 \<le> s"
  shows "s2m s = minutes_colon_seconds (nat s)"
proof -
  define n where "n = nat s"
  with assms have s: "s = int n" by simp
  have rest: "int n - int n div 60 * 60 = int (n mod 60)"
    by (simp add: minus_div_mult_eq_mod zmod_int)
  have mins: "str_int (int n div 60) = str_nat (n div 60)"
  proof -
    have "int n div 60 = int (n div 60)" by (simp add: zdiv_int)
    then show ?thesis by (simp add: str_int_def)
  qed
  have "n mod 60 < 100"
    by (rule less_trans [of _ 60]) simp_all
  then have secs: "format_02 (int (n mod 60)) = [digit (n mod 60 div 10), digit (n mod 60 mod 10)]"
    by (rule format_02_nat)
  have "s2m (int n) = minutes_colon_seconds n"
    unfolding s2m_def minutes_colon_seconds_def Let_def rest mins secs ..
  then show ?thesis
    by (simp only: s nat_int)
qed

lemma s2m_MAX_VIDEO_DURATION: "s2m MAX_VIDEO_DURATION = ''12:00''"
  by (simp add: s2m_def MAX_VIDEO_DURATION_def str_int_def format_02_def str_nat.simps digit_def)

lemma mcs_720: "minutes_colon_seconds 720 = ''12:00''"
  by (simp add: minutes_colon_seconds_def str_nat.simps digit_def)

lemma rfd_1200:
  "response_for_duration (PyInt 1200) =
     Inr \<lparr>ok = False,
          reason = Some ''Video is too long at 1200s (20:00). Maximum duration is 720s (12:00).'',
          token = None, video_info = None\<rparr>"
  by (simp add: MAX_VIDEO_DURATION_def dict_ok_def s2m_def str_int_def format_02_def
      str_nat.simps digit_def)

subsection \<open>The duration policy\<close>

text \<open>
  \<^bold>\<open>C3.\<close> For every integer duration \<open>d\<close> the policy check returns normally; it accepts
  (\<open>ok\<close> is true) exactly when \<open>d \<le> 720\<close>, and its answer carries a reason exactly when
  \<open>d > 720\<close>, where it rejects.
\<close>

theorem response_for_duration_accepts_iff:
  "\<exists>r. response_for_duration (PyInt d) = Inr r \<and> ok r = (d \<le> 720) \<and>
       (reason r \<noteq> None) = (720 < d)"
  by (auto simp: MAX_VIDEO_DURATION_def dict_ok_def)

theorem response_for_duration_accepts_iff_witness:
  "(\<exists>r. response_for_duration (PyInt 720) = Inr r \<and> ok r = True \<and>
        (reason r \<noteq> None) = False) \<and>
   (\<exists>r. response_for_duration (PyInt 721) = Inr r \<and> ok r = False \<and>
        (reason r \<noteq> None) = True)"
  using response_for_duration_accepts_iff [of 720] response_for_duration_accepts_iff [of 721]
  by simp

text \<open>
  \<^bold>\<open>C4.\<close> \<^verbatim>\<open>s2m\<close> renders a nonnegative number of seconds \<open>s\<close> as \<open>s div 60\<close>, a colon
  and \<open>s mod 60\<close> in two digits; and for every duration \<open>d\<close> above the maximum the check
  rejects with a reason that contains both \<open>d\<close> and the maximum in that rendering.
\<close>

theorem reason_renders_minutes_seconds:
  assumes "720 < d" and "0 \<le> s"
  shows "s2m s = minutes_colon_seconds (nat s) \<and>
         (\<exists>m r. response_for_duration (PyInt d) = Inr m \<and> \<not> ok m \<and> reason m = Some r \<and>
                sublist (minutes_colon_seconds (nat d)) r \<and>
                sublist (minutes_colon_seconds 720) r)"
proof
  from assms(2) show "s2m s = minutes_colon_seconds (nat s)"
    by (rule s2m_minutes_colon_seconds)
next
  let ?head = "''Video is too long at '' @ str_int d @ ''s (''"
  let ?mid = "''). Maximum duration is '' @ str_int MAX_VIDEO_DURATION @ ''s (''"
  let ?r = "?head @ s2m d @ ?mid @ s2m MAX_VIDEO_DURATION @ '').''"
  from assms(1) have d: "s2m d = minutes_colon_seconds (nat d)"
    by (intro s2m_minutes_colon_seconds) simp
  have m: "s2m MAX_VIDEO_DURATION = minutes_colon_seconds 720"
    by (simp add: s2m_MAX_VIDEO_DURATION mcs_720)
  have "sublist (s2m d) ?r"
    by (rule sublist_appendI)
  moreover have "sublist (s2m MAX_VIDEO_DURATION) ((?head @ s2m d @ ?mid) @ s2m MAX_VIDEO_DURATION @ '').'')"
    by (rule sublist_appendI)
  then have "sublist (s2m MAX_VIDEO_DURATION) ?r"
    by simp
  moreover from assms(1) have "response_for_duration (PyInt d) = Inr ((dict_ok False)\<lparr>reason := Some ?r\<rparr>)"
    by (simp add: MAX_VIDEO_DURATION_def)
  ultimately show "\<exists>m r. response_for_duration (PyInt d) = Inr m \<and> \<not> ok m \<and> reason m = Some r \<and>
                sublist (minutes_colon_seconds (nat d)) r \<and>
                sublist (minutes_colon_seconds 720) r"
    by (simp add: d m dict_ok_def)
qed

theorem reason_renders_minutes_seconds_witness:
  "(720::int) < 1200 \<and> (0::int) \<le> 725 \<and> s2m 725 = ''12:05'' \<and>
   (\<exists>m r. response_for_duration (PyInt 1200) = Inr m \<and> \<not> ok m \<and> reason m = Some r \<and>
          sublist ''20:00'' r \<and> sublist ''12:00'' r)"
proof -
  have a: "minutes_colon_seconds (nat 725) = ''12:05''"
    by (simp add: minutes_colon_seconds_def str_nat.simps digit_def)
  have b: "minutes_colon_seconds (nat 1200) = ''20:00''"
    by (simp add: minutes_colon_seconds_def str_nat.simps digit_def)
  have c: "minutes_colon_seconds 720 = ''12:00''"
    by (simp add: minutes_colon_seconds_def str_nat.simps digit_def)
  from reason_renders_minutes_seconds [of 1200 725] show ?thesis
    unfolding a b c by simp
qed

subsection \<open>The paths of the handlers\<close>

lemma enqueue_cached:
  assumes "extract_info y (''https://youtu.be/'' @ video_id) = Inr info"
    and "scalars info ''id'' = Some i"
    and "py_format i @ ''.opus'' \<in> cache w"
  shows "V1Enqueue_on_get y w res video_id =
           (w\<lparr>calls := calls w @ [ExtractInfo (''https://youtu.be/'' @ video_id)]\<rparr>,
            Inr (res\<lparr>media := Some (dict_ok True)\<rparr>))"
  using assms by (simp add: V1Enqueue_on_get_def getitem_def Let_def)

lemma enqueue_rejected:
  assumes "extract_info y (''https://youtu.be/'' @ video_id) = Inr info"
    and "scalars info ''id'' = Some i"
    and "py_format i @ ''.opus'' \<notin> cache w"
    and "scalars info ''duration'' = Some d"
    and "response_for_duration d = Inr r"
    and "\<not> ok r"
  shows "V1Enqueue_on_get y w res video_id =
           (w\<lparr>calls := calls w @ [ExtractInfo (''https://youtu.be/'' @ video_id)]\<rparr>,
            Inr (res\<lparr>media := Some r, status := HTTP_400\<rparr>))"
  using assms by (simp add: V1Enqueue_on_get_def getitem_def Let_def)

lemma download_not_consulted:
  assumes "extract_info y (''https://youtu.be/'' @ video_id) = Inr info"
    and "scalars info ''id'' = Some i"
    and "py_format i @ ''.opus'' \<in> cache w \<or>
         (\<exists>d r. scalars info ''duration'' = Some d \<and> response_for_duration d = Inr r \<and> \<not> ok r)"
  shows "V1Enqueue_on_get (y\<lparr>download := dl\<rparr>) w res video_id = V1Enqueue_on_get y w res video_id"
  using assms by (auto simp add: V1Enqueue_on_get_def getitem_def Let_def)

lemma lookup_found:
  assumes "extract_info y search_term = Inr info"
    and "entries info = Some (choice # rest)"
    and "choice ''duration'' = Some d"
    and "response_for_duration d = Inr r"
    and "choice ''id'' = Some i"
  shows "V1Lookup_on_get y w res search_term =
           (w\<lparr>calls := calls w @ [ExtractInfo search_term]\<rparr>,
            Inr (res\<lparr>media := Some (r\<lparr>token := Some i,
              video_info := Some (map (\<lambda>k. (k, dict_get choice k)) VIDEO_INFO_KEYS)\<rparr>)\<rparr>))"
  using assms by (simp add: V1Lookup_on_get_def getitem_def Let_def)

subsection \<open>Enqueue\<close>

text \<open>
  \<^bold>\<open>C5.\<close> An enqueue whose extraction gives an id with no audio file in the cache and a
  duration of 1200 seconds answers with status 400 and the body \<open>ok = False\<close> with exactly
  the reason \<^verbatim>\<open>Video is too long at 1200s (20:00). Maximum duration is 720s (12:00).\<close>
\<close>

theorem enqueue_1200s_rejected:
  assumes "extract_info y (''https://youtu.be/'' @ video_id) = Inr info"
    and "scalars info ''id'' = Some i"
    and "py_format i @ ''.opus'' \<notin> cache w"
    and "scalars info ''duration'' = Some (PyInt 1200)"
  shows "snd (V1Enqueue_on_get y w res video_id) =
           Inr \<lparr>status = ''400 Bad Request'',
                media = Some \<lparr>ok = False,
                  reason = Some
                    ''Video is too long at 1200s (20:00). Maximum duration is 720s (12:00).'',
                  token = None, video_info = None\<rparr>\<rparr>"
  by (simp add: enqueue_rejected [OF assms rfd_1200] HTTP_400_def)

theorem enqueue_1200s_rejected_witness:
  "extract_info fake_ytdl (''https://youtu.be/'' @ ''LONGVIDEO01'') =
     Inr \<lparr>scalars = long_video, entries = None\<rparr> \<and>
   scalars \<lparr>scalars = long_video, entries = None\<rparr> ''id'' = Some (PyStr ''LONGVIDEO01'') \<and>
   py_format (PyStr ''LONGVIDEO01'') @ ''.opus'' \<notin> cache empty_world \<and>
   scalars \<lparr>scalars = long_video, entries = None\<rparr> ''duration'' = Some (PyInt 1200) \<and>
   snd (V1Enqueue_on_get fake_ytdl empty_world falcon_Response ''LONGVIDEO01'') =
     Inr \<lparr>status = ''400 Bad Request'',
          media = Some \<lparr>ok = False,
            reason = Some
              ''Video is too long at 1200s (20:00). Maximum duration is 720s (12:00).'',
            token = None, video_info = None\<rparr>\<rparr>"
proof -
  have a: "extract_info fake_ytdl (''https://youtu.be/'' @ ''LONGVIDEO01'') =
             Inr \<lparr>scalars = long_video, entries = None\<rparr>"
    by (simp add: fake_ytdl_def fake_extract_info_def)
  have b: "scalars \<lparr>scalars = long_video, entries = None\<rparr> ''id'' = Some (PyStr ''LONGVIDEO01'')"
    by (simp add: long_video_def)
  have c: "py_format (PyStr ''LONGVIDEO01'') @ ''.opus'' \<notin> cache empty_world"
    by (simp add: empty_world_def)
  have d: "scalars \<lparr>scalars = long_video, entries = None\<rparr> ''duration'' = Some (PyInt 1200)"
    by (simp add: long_video_def)
  from a b c d enqueue_1200s_rejected [OF a b c d, of falcon_Response]
  show ?thesis by blast
qed

text \<open>
  \<^bold>\<open>C10.\<close> An enqueue of a video that is not cached and whose duration exceeds the maximum
  answers with status 400 and \<open>ok = False\<close>; the only call it makes to \<^verbatim>\<open>youtube_dl\<close> is
  the metadata extraction, the cache is as it was, and the outcome is the same whatever the
  download method would do: it is never invoked.
\<close>

theorem enqueue_rejected_no_download:
  assumes "extract_info y (''https://youtu.be/'' @ video_id) = Inr info"
    and "scalars info ''id'' = Some i"
    and "py_format i @ ''.opus'' \<notin> cache w"
    and "scalars info ''duration'' = Some (PyInt d)"
    and "720 < d"
  shows "\<exists>w' res' m. V1Enqueue_on_get y w res video_id = (w', Inr res') \<and>
           calls w' = calls w @ [ExtractInfo (''https://youtu.be/'' @ video_id)] \<and>
           cache w' = cache w \<and>
           status res' = HTTP_400 \<and> media res' = Some m \<and> \<not> ok m \<and>
           V1Enqueue_on_get (y\<lparr>download := dl\<rparr>) w res video_id = (w', Inr res')"
proof -
  obtain r where r: "response_for_duration (PyInt d) = Inr r" "\<not> ok r"
    using assms(5) by (simp add: MAX_VIDEO_DURATION_def dict_ok_def)
  have "V1Enqueue_on_get (y\<lparr>download := dl\<rparr>) w res video_id =
          V1Enqueue_on_get y w res video_id"
    using assms(1,2,4) r by (intro download_not_consulted) auto
  then show ?thesis
    using r(2) by (simp add: enqueue_rejected [OF assms(1-4) r])
qed

theorem enqueue_rejected_no_download_witness:
  "extract_info fake_ytdl (''https://youtu.be/'' @ ''LONGVIDEO01'') =
     Inr \<lparr>scalars = long_video, entries = None\<rparr> \<and>
   scalars \<lparr>scalars = long_video, entries = None\<rparr> ''id'' = Some (PyStr ''LONGVIDEO01'') \<and>
   py_format (PyStr ''LONGVIDEO01'') @ ''.opus'' \<notin> cache empty_world \<and>
   scalars \<lparr>scalars = long_video, entries = None\<rparr> ''duration'' = Some (PyInt 1200) \<and>
   (720::int) < 1200 \<and>
   (\<exists>w' res' m. V1Enqueue_on_get fake_ytdl empty_world falcon_Response ''LONGVIDEO01'' =
        (w', Inr res') \<and>
      calls w' = calls empty_world @ [ExtractInfo (''https://youtu.be/'' @ ''LONGVIDEO01'')] \<and>
      cache w' = cache empty_world \<and>
      status res' = HTTP_400 \<and> media res' = Some m \<and> \<not> ok m \<and>
      V1Enqueue_on_get (fake_ytdl\<lparr>download := fake_download\<rparr>) empty_world falcon_Response
        ''LONGVIDEO01'' = (w', Inr res'))"
proof -
  have a: "extract_info fake_ytdl (''https://youtu.be/'' @ ''LONGVIDEO01'') =
             Inr \<lparr>scalars = long_video, entries = None\<rparr>"
    by (simp add: fake_ytdl_def fake_extract_info_def)
  have b: "scalars \<lparr>scalars = long_video, entries = None\<rparr> ''id'' = Some (PyStr ''LONGVIDEO01'')"
    by (simp add: long_video_def)
  have c: "py_format (PyStr ''LONGVIDEO01'') @ ''.opus'' \<notin> cache empty_world"
    by (simp add: empty_world_def)
  have d: "scalars \<lparr>scalars = long_video, entries = None\<rparr> ''duration'' = Some (PyInt 1200)"
    by (simp add: long_video_def)
  have e: "(720::int) < 1200"
    by simp
  from a b c d e enqueue_rejected_no_download [OF a b c d e, of falcon_Response fake_download]
  show ?thesis by blast
qed

text \<open>
  \<^bold>\<open>C8.\<close> When the audio file of the extracted id is in the cache, enqueue answers
  \<open>ok = True\<close> whatever the info dict holds under \<^verbatim>\<open>"duration"\<close> (\<open>dur\<close> is arbitrary:
  a value above the maximum, \<^verbatim>\<open>None\<close>, or no such key): the cache test comes before the
  duration policy.
\<close>

theorem enqueue_cached_any_duration:
  assumes "extract_info y (''https://youtu.be/'' @ video_id) = Inr info"
    and "scalars info ''id'' = Some i"
    and "py_format i @ ''.opus'' \<in> cache w"
    and "scalars info ''duration'' = dur"
  shows "\<exists>res' m. snd (V1Enqueue_on_get y w res video_id) = Inr res' \<and>
           media res' = Some m \<and> ok m"
  by (simp add: enqueue_cached [OF assms(1-3)] dict_ok_def)

theorem enqueue_cached_any_duration_witness:
  "extract_info fake_ytdl (''https://youtu.be/'' @ ''LONGVIDEO01'') =
     Inr \<lparr>scalars = long_video, entries = None\<rparr> \<and>
   scalars \<lparr>scalars = long_video, entries = None\<rparr> ''id'' = Some (PyStr ''LONGVIDEO01'') \<and>
   py_format (PyStr ''LONGVIDEO01'') @ ''.opus'' \<in> cache cached_world \<and>
   scalars \<lparr>scalars = long_video, entries = None\<rparr> ''duration'' = Some (PyInt 1200) \<and>
   (\<exists>m. response_for_duration (PyInt 1200) = Inr m \<and> \<not> ok m) \<and>
   (\<exists>res' m. snd (V1Enqueue_on_get fake_ytdl cached_world falcon_Response ''LONGVIDEO01'') =
        Inr res' \<and> media res' = Some m \<and> ok m)"
proof -
  have a: "extract_info fake_ytdl (''https://youtu.be/'' @ ''LONGVIDEO01'') =
             Inr \<lparr>scalars = long_video, entries = None\<rparr>"
    by (simp add: fake_ytdl_def fake_extract_info_def)
  have b: "scalars \<lparr>scalars = long_video, entries = None\<rparr> ''id'' = Some (PyStr ''LONGVIDEO01'')"
    by (simp add: long_video_def)
  have c: "py_format (PyStr ''LONGVIDEO01'') @ ''.opus'' \<in> cache cached_world"
    by (simp add: cached_world_def)
  have d: "scalars \<lparr>scalars = long_video, entries = None\<rparr> ''duration'' = Some (PyInt 1200)"
    by (simp add: long_video_def)
  have e: "\<exists>m. response_for_duration (PyInt 1200) = Inr m \<and> \<not> ok m"
    by (simp add: MAX_VIDEO_DURATION_def dict_ok_def)
  from a b c d e enqueue_cached_any_duration [OF a b c d, of falcon_Response]
  show ?thesis by blast
qed

text \<open>
  An enqueue of a cached video is not free of external calls: the metadata extraction
  runs before the cache is looked at. In the run below the audio file is in the cache, the
  handler answers \<open>ok = True\<close>, and the log of calls holds one extraction.
\<close>

theorem enqueue_cached_external_call:
  "''LONGVIDEO01.opus'' \<in> cache cached_world \<and> calls cached_world = [] \<and>
   snd (V1Enqueue_on_get fake_ytdl cached_world falcon_Response ''LONGVIDEO01'') =
     Inr (falcon_Response\<lparr>media := Some (dict_ok True)\<rparr>) \<and>
   calls (fst (V1Enqueue_on_get fake_ytdl cached_world falcon_Response ''LONGVIDEO01'')) =
     [ExtractInfo ''https://youtu.be/LONGVIDEO01'']"
  by (simp add: V1Enqueue_on_get_def getitem_def Let_def fake_ytdl_def fake_extract_info_def
      long_video_def cached_world_def)

text \<open>
  \<^bold>\<open>C2\<close> (amended). For every enqueue whose metadata extraction succeeds and gives an id
  whose audio file is in the cache, the handler answers \<open>ok = True\<close> at once with the status
  untouched; its only external call is that one metadata extraction, no download is invoked
  (the outcome does not depend on the download method), and the cache is unchanged.
\<close>

theorem enqueue_cached_no_download:
  assumes "extract_info y (''https://youtu.be/'' @ video_id) = Inr info"
    and "scalars info ''id'' = Some i"
    and "py_format i @ ''.opus'' \<in> cache w"
  shows "\<exists>w' res'. V1Enqueue_on_get y w res video_id = (w', Inr res') \<and>
           calls w' = calls w @ [ExtractInfo (''https://youtu.be/'' @ video_id)] \<and>
           cache w' = cache w \<and>
           status res' = status res \<and> media res' = Some (dict_ok True) \<and>
           V1Enqueue_on_get (y\<lparr>download := dl\<rparr>) w res video_id = (w', Inr res')"
proof -
  have "V1Enqueue_on_get (y\<lparr>download := dl\<rparr>) w res video_id =
          V1Enqueue_on_get y w res video_id"
    using assms by (intro download_not_consulted) auto
  then show ?thesis
    by (simp add: enqueue_cached [OF assms])
qed

theorem enqueue_cached_no_download_witness:
  "extract_info fake_ytdl (''https://youtu.be/'' @ ''LONGVIDEO01'') =
     Inr \<lparr>scalars = long_video, entries = None\<rparr> \<and>
   scalars \<lparr>scalars = long_video, entries = None\<rparr> ''id'' = Some (PyStr ''LONGVIDEO01'') \<and>
   py_format (PyStr ''LONGVIDEO01'') @ ''.opus'' \<in> cache cached_world \<and>
   (\<exists>w' res'. V1Enqueue_on_get fake_ytdl cached_world falcon_Response ''LONGVIDEO01'' =
        (w', Inr res') \<and>
      calls w' = calls cached_world @ [ExtractInfo (''https://youtu.be/'' @ ''LONGVIDEO01'')] \<and>
      cache w' = cache cached_world \<and>
      status res' = status falcon_Response \<and> media res' = Some (dict_ok True) \<and>
      V1Enqueue_on_get (fake_ytdl\<lparr>download := fake_download\<rparr>) cached_world falcon_Response
        ''LONGVIDEO01'' = (w', Inr res'))"
proof -
  have a: "extract_info fake_ytdl (''https://youtu.be/'' @ ''LONGVIDEO01'') =
             Inr \<lparr>scalars = long_video, entries = None\<rparr>"
    by (simp add: fake_ytdl_def fake_extract_info_def)
  have b: "scalars \<lparr>scalars = long_video, entries = None\<rparr> ''id'' = Some (PyStr ''LONGVIDEO01'')"
    by (simp add: long_video_def)
  have c: "py_format (PyStr ''LONGVIDEO01'') @ ''.opus'' \<in> cache cached_world"
    by (simp add: cached_world_def)
  from a b c enqueue_cached_no_download [OF a b c, of falcon_Response fake_download]
  show ?thesis by blast
qed

subsection \<open>Lookup\<close>

text \<open>
  When the \<^verbatim>\<open>"entries"\<close> key is missing altogether, the lookup does answer with status 400
  and the reason naming the search term.
\<close>

lemma lookup_no_entries_key:
  assumes "extract_info y search_term = Inr info"
    and "entries info = None"
  shows "snd (V1Lookup_on_get y w res search_term) =
           Inr (res\<lparr>media := Some \<lparr>ok = False,
                  reason = Some (''Nothing found for search term '' @ [CHR 0x27] @ search_term),
                  token = None, video_info = None\<rparr>,
                status := HTTP_400\<rparr>)"
  using assms by (simp add: V1Lookup_on_get_def dict_ok_def Let_def)

text \<open>
  \<^bold>\<open>C6.\<close> A lookup whose extraction gives an empty list of entries does not answer with
  status 400 and a reason: \<^verbatim>\<open>info["entries"][0]\<close> raises \<^verbatim>\<open>IndexError\<close>, which
  \<^verbatim>\<open>except KeyError\<close> does not catch, and the exception leaves the handler.
\<close>

theorem lookup_empty_entries_raises:
  "extract_info fake_ytdl ''asdkfjhaskldfjhaslkdfjh'' =
     Inr \<lparr>scalars = Map.empty, entries = Some []\<rparr> \<and>
   snd (V1Lookup_on_get fake_ytdl empty_world falcon_Response ''asdkfjhaskldfjhaslkdfjh'') =
     Inl IndexError"
  by (simp add: V1Lookup_on_get_def fake_ytdl_def fake_extract_info_def Let_def)

text \<open>
  \<^bold>\<open>C7.\<close> A lookup whose first entry has an id and an integer duration above the maximum
  answers with \<open>ok = False\<close> and a reason, and the status is the 200 of the fresh response,
  not 400.
\<close>

theorem lookup_too_long_status_200:
  assumes "extract_info y search_term = Inr info"
    and "entries info = Some (choice # rest)"
    and "choice ''duration'' = Some (PyInt d)"
    and "choice ''id'' = Some i"
    and "720 < d"
  shows "\<exists>res' m r. snd (V1Lookup_on_get y w falcon_Response search_term) = Inr res' \<and>
           status res' = ''200 OK'' \<and> status res' \<noteq> HTTP_400 \<and>
           media res' = Some m \<and> \<not> ok m \<and> reason m = Some r"
proof -
  obtain m r where m: "response_for_duration (PyInt d) = Inr m" "\<not> ok m" "reason m = Some r"
    using assms(5) by (simp add: MAX_VIDEO_DURATION_def dict_ok_def)
  show ?thesis
    using m(2,3)
    by (simp add: lookup_found [OF assms(1-3) m(1) assms(4)] falcon_Response_def
        HTTP_200_def HTTP_400_def)
qed

theorem lookup_too_long_status_200_witness:
  "extract_info fake_ytdl ''a long video'' =
     Inr \<lparr>scalars = Map.empty, entries = Some [long_video]\<rparr> \<and>
   entries \<lparr>scalars = Map.empty, entries = Some [long_video]\<rparr> = Some (long_video # []) \<and>
   long_video ''duration'' = Some (PyInt 1200) \<and>
   long_video ''id'' = Some (PyStr ''LONGVIDEO01'') \<and>
   (720::int) < 1200 \<and>
   (\<exists>res' m r. snd (V1Lookup_on_get fake_ytdl empty_world falcon_Response ''a long video'') =
        Inr res' \<and>
      status res' = ''200 OK'' \<and> status res' \<noteq> HTTP_400 \<and>
      media res' = Some m \<and> \<not> ok m \<and> reason m = Some r)"
proof -
  have a: "extract_info fake_ytdl ''a long video'' =
             Inr \<lparr>scalars = Map.empty, entries = Some [long_video]\<rparr>"
    by (simp add: fake_ytdl_def fake_extract_info_def)
  have b: "entries \<lparr>scalars = Map.empty, entries = Some [long_video]\<rparr> = Some (long_video # [])"
    by simp
  have c: "long_video ''duration'' = Some (PyInt 1200)"
    by (simp add: long_video_def)
  have d: "long_video ''id'' = Some (PyStr ''LONGVIDEO01'')"
    by (simp add: long_video_def)
  have e: "(720::int) < 1200"
    by simp
  from a b c d e lookup_too_long_status_200 [OF a b c d e, of empty_world]
  show ?thesis by blast
qed

text \<open>
  \<^bold>\<open>C9.\<close> A lookup whose first entry has an id and an integer duration \<open>d\<close> answers with a
  body that holds the token (that id) and the ten \<^verbatim>\<open>video_info\<close> fields, whether the
  duration check accepts or rejects (\<open>ok\<close> is \<open>d \<le> 720\<close>).
\<close>

theorem lookup_body_has_token_and_info:
  assumes "extract_info y search_term = Inr info"
    and "entries info = Some (choice # rest)"
    and "choice ''duration'' = Some (PyInt d)"
    and "choice ''id'' = Some i"
  shows "\<exists>res' m. snd (V1Lookup_on_get y w res search_term) = Inr res' \<and>
           media res' = Some m \<and> ok m = (d \<le> 720) \<and> token m = Some i \<and>
           video_info m = Some (map (\<lambda>k. (k, dict_get choice k)) VIDEO_INFO_KEYS)"
proof -
  obtain r where r: "response_for_duration (PyInt d) = Inr r" "ok r = (d \<le> 720)"
    by (auto simp: MAX_VIDEO_DURATION_def dict_ok_def)
  show ?thesis
    using r(2) by (simp add: lookup_found [OF assms(1-3) r(1) assms(4)])
qed

theorem lookup_body_has_token_and_info_witness:
  "extract_info fake_ytdl ''a long video'' =
     Inr \<lparr>scalars = Map.empty, entries = Some [long_video]\<rparr> \<and>
   entries \<lparr>scalars = Map.empty, entries = Some [long_video]\<rparr> = Some (long_video # []) \<and>
   long_video ''duration'' = Some (PyInt 1200) \<and>
   long_video ''id'' = Some (PyStr ''LONGVIDEO01'') \<and>
   (\<exists>res' m. snd (V1Lookup_on_get fake_ytdl empty_world falcon_Response ''a long video'') =
        Inr res' \<and>
      media res' = Some m \<and> ok m = False \<and> token m = Some (PyStr ''LONGVIDEO01'') \<and>
      video_info m =
        Some [(''alt_title'', PyNone), (''artist'', PyNone), (''creator'', PyNone),
              (''description'', PyNone), (''title'', PyStr ''A long video''),
              (''track'', PyNone), (''uploader'', PyNone), (''webpage_url'', PyNone),
              (''viewcount'', PyNone), (''duration'', PyInt 1200)])"
proof -
  have a: "extract_info fake_ytdl ''a long video'' =
             Inr \<lparr>scalars = Map.empty, entries = Some [long_video]\<rparr>"
    by (simp add: fake_ytdl_def fake_extract_info_def)
  have b: "entries \<lparr>scalars = Map.empty, entries = Some [long_video]\<rparr> = Some (long_video # []) "
    by simp
  have c: "long_video ''duration'' = Some (PyInt 1200)"
    by (simp add: long_video_def)
  have d: "long_video ''id'' = Some (PyStr ''LONGVIDEO01'')"
    by (simp add: long_video_def)
  have e: "map (\<lambda>k. (k, dict_get long_video k)) VIDEO_INFO_KEYS =
        [(''alt_title'', PyNone), (''artist'', PyNone), (''creator'', PyNone),
         (''description'', PyNone), (''title'', PyStr ''A long video''),
         (''track'', PyNone), (''uploader'', PyNone), (''webpage_url'', PyNone),
         (''viewcount'', PyNone), (''duration'', PyInt 1200)]"
    by (simp add: VIDEO_INFO_KEYS_def dict_get_def long_video_def)
  have f: "((1200::int) \<le> 720) = False"
    by simp
  from a b c d lookup_body_has_token_and_info [OF a b c d, of empty_world falcon_Response]
  show ?thesis unfolding e f by blast
qed

end
